theory Spec2Isabelle
  imports Complex_Main
begin

section \<open>The BetaBinomialMixture driver of BayesBoom\<close>

text \<open>
  A shallow embedding of the class \<open>BetaBinomialMixture\<close> of
  \<open>BayesBoom/mixtures/beta_binomial_mixture.py\<close>. The class is a driver around the
  external BOOM engine: it keeps a list of component specifications and a parallel list
  of prior counts, builds the engine model lazily, runs the sampling loop and stores the
  draws in NumPy arrays.

  Python exceptions are values of \<open>error\<close>. A method that mutates the object returns the
  pair of its outcome (\<open>None\<close> for a normal return, \<open>Some e\<close> for a raised exception)
  and the object as the call left it, so that the mutations done before an exception
  remain visible, as they do in Python.
\<close>

subsection \<open>Exceptions\<close>

datatype error =
  TypeError | AttributeError | ValueError | IndexError | KeyError | EngineError

subsection \<open>Two-dimensional NumPy arrays\<close>

text \<open>
  An array of shape \<open>(n, k)\<close> is its list of \<open>n\<close> rows together with the column count
  \<open>k\<close>, which the rows alone do not determine when \<open>n = 0\<close>.
\<close>

record 'v ndarray =
  ncols :: nat
  cells :: "'v list list"

definition nrows :: "'v ndarray \<Rightarrow> nat" where
  "nrows m = length (cells m)"

definition shape :: "'v ndarray \<Rightarrow> nat \<times> nat" where
  "shape m = (nrows m, ncols m)"

text \<open>
  \<open>np.empty((n, k))\<close>: a negative dimension raises ValueError; otherwise the array holds
  whatever the memory held, given here by the function \<open>u\<close> of the cell position.
\<close>

definition np_empty :: "(nat \<Rightarrow> nat \<Rightarrow> 'v) \<Rightarrow> int \<Rightarrow> int \<Rightarrow> error + 'v ndarray" where
  "np_empty u n k =
     (if n < 0 \<or> k < 0 then Inl ValueError
      else Inr \<lparr>ncols = nat k,
                cells = map (\<lambda>i. map (u i) [0..<nat k]) [0..<nat n]\<rparr>)"

text \<open>
  \<open>m[i, :] = vs\<close> for a one-dimensional \<open>vs\<close> and \<open>0 \<le> i\<close>: IndexError when the row does
  not exist; a vector of the row's length is stored, a vector of length one is broadcast
  along the row, any other length raises ValueError.
\<close>

definition setitem_row :: "'v ndarray \<Rightarrow> nat \<Rightarrow> 'v list \<Rightarrow> error + 'v ndarray" where
  "setitem_row m i vs =
     (if nrows m \<le> i then Inl IndexError
      else if length vs = ncols m then Inr (m\<lparr>cells := (cells m)[i := vs]\<rparr>)
      else if length vs = 1 then Inr (m\<lparr>cells := (cells m)[i := replicate (ncols m) (hd vs)]\<rparr>)
      else Inl ValueError)"

text \<open>\<open>m[:, j]\<close> for \<open>0 \<le> j\<close>: the column as a vector, IndexError when there is no such column.\<close>

definition getitem_col :: "'v ndarray \<Rightarrow> nat \<Rightarrow> error + 'v list" where
  "getitem_col m j =
     (if ncols m \<le> j then Inl IndexError else Inr (map (\<lambda>r. r ! j) (cells m)))"

text \<open>\<open>m[:, j] = vs\<close>, with the same broadcasting rule as for rows.\<close>

definition setitem_col :: "'v ndarray \<Rightarrow> nat \<Rightarrow> 'v list \<Rightarrow> error + 'v ndarray" where
  "setitem_col m j vs =
     (if ncols m \<le> j then Inl IndexError
      else if length vs = nrows m
        then Inr (m\<lparr>cells := map (\<lambda>(r, v). r[j := v]) (zip (cells m) vs)\<rparr>)
      else if length vs = 1
        then Inr (m\<lparr>cells := map (\<lambda>r. r[j := hd vs]) (cells m)\<rparr>)
      else Inl ValueError)"

text \<open>
  An element-wise binary operation. Both operands of the driver's arithmetic are built
  with one and the same shape; operands of different shapes are reported as ValueError.
\<close>

definition elementwise ::
  "('v \<Rightarrow> 'v \<Rightarrow> 'v) \<Rightarrow> 'v ndarray \<Rightarrow> 'v ndarray \<Rightarrow> error + 'v ndarray" where
  "elementwise f x y =
     (if shape x = shape y
      then Inr \<lparr>ncols = ncols x, cells = map (\<lambda>(r, q). map (\<lambda>(p, w). f p w) (zip r q)) (zip (cells x) (cells y))\<rparr>
      else Inl ValueError)"

text \<open>
  Indexing a Python list with a string: \<open>xs["key"]\<close> raises TypeError whatever the list
  holds (list indices must be integers or slices).
\<close>

definition getitem_list_str :: "'a list \<Rightarrow> string \<Rightarrow> error + 'v ndarray" where
  "getitem_list_str xs key = Inl TypeError"

text \<open>A function applied to every element in order, stopping at the first exception.\<close>

fun map_result :: "('a \<Rightarrow> error + 'b) \<Rightarrow> 'a list \<Rightarrow> error + 'b list" where
  "map_result f [] = Inr []"
| "map_result f (x # xs) =
     (case f x of
        Inl e \<Rightarrow> Inl e
      | Inr y \<Rightarrow> (case map_result f xs of Inl e \<Rightarrow> Inl e | Inr ys \<Rightarrow> Inr (y # ys)))"

text \<open>\<open>t.astype(int)\<close>, with the cast of one cell given by \<open>cast\<close>.\<close>

definition astype :: "('c \<Rightarrow> error + int) \<Rightarrow> 'c ndarray \<Rightarrow> error + int ndarray" where
  "astype cast t =
     (case map_result (map_result cast) (cells t) of
        Inl e \<Rightarrow> Inl e
      | Inr rs \<Rightarrow> Inr \<lparr>ncols = ncols t, cells = rs\<rparr>)"

subsection \<open>The object\<close>

text \<open>
  A component is the dict built by \<open>add_component\<close> with the keys \<open>"mean_prior"\<close> and
  \<open>"sample_size_prior"\<close>; \<open>_create_storage\<close> later stores a third key \<open>"draws"\<close> in it.
  The dict is a record whose \<open>draws\<close> field is \<open>None\<close> while the key is absent.
\<close>

record ('mp, 'sp, 'v) component =
  mean_prior :: 'mp
  sample_size_prior :: 'sp
  draws :: "'v ndarray option"


text \<open>
  The attribute \<open>_mixing_weights\<close> is not assigned by \<open>__init__\<close>: it does not exist
  (\<open>Missing\<close>) until \<open>add_component\<close> sets it to \<open>None\<close> (\<open>PyNone\<close>) or \<open>_create_storage\<close>
  sets it to an array.
\<close>

datatype 'v slot = Missing | PyNone | Array "'v ndarray"

text \<open>What the process shows to the user: warnings and calls of \<open>R.report_progress\<close>.\<close>

datatype event = Warning string | Progress nat "int option"

text \<open>
  The state: the four attributes of the object (\<open>priv_x\<close> is the Python attribute \<open>_x\<close>),
  the engine's process-wide random number generator \<open>boom.GlobalRng.rng\<close> and the
  events emitted so far.
\<close>

record ('mp, 'sp, 'v, 'e, 'r) world =
  priv_components :: "('mp, 'sp, 'v) component list"
  priv_mixing_distribution_prior_counts :: "'v list"
  priv_boom_model :: "'e option"
  priv_mixing_weights :: "'v slot"
  global_rng :: 'r
  emitted :: "event list"

text \<open>
  The collaborators the class calls and that are not part of its file: the BOOM engine
  (type \<open>'e\<close> of a mixture model object, \<open>'r\<close> of the generator state), the content of
  freshly allocated memory, and NumPy's cast of one table cell to \<open>int\<close>.
  \<open>boom_build\<close> stands for the constructor calls of \<open>_build_boom_model\<close> taken together:
  it receives the prior counts and the two priors of every component. An engine call
  that changes the model returns the changed model also when it raises.
  \<open>rng_seed\<close> is \<open>boom.GlobalRng.rng.seed\<close>: it returns the reseeded generator or raises,
  as it does for an integer the generator does not accept.
\<close>

record ('mp, 'sp, 'v, 'e, 'r, 'c) env =
  boom_build :: "'v list \<Rightarrow> ('mp \<times> 'sp) list \<Rightarrow> error + 'e"
  boom_add_data :: "'e \<Rightarrow> int list \<Rightarrow> int list \<Rightarrow> int list \<Rightarrow> error option \<times> 'e"
  boom_sample_posterior :: "'e \<Rightarrow> 'r \<Rightarrow> error option \<times> 'e \<times> 'r"
  boom_mixture_component :: "'e \<Rightarrow> nat \<Rightarrow> error + ('v \<times> 'v)"
  boom_probs :: "'e \<Rightarrow> error + 'v list"
  rng_seed :: "int \<Rightarrow> 'r \<Rightarrow> error + 'r"
  np_uninit :: "nat \<Rightarrow> nat \<Rightarrow> 'v"
  cast_int :: "'c \<Rightarrow> error + int"

text \<open>\<open>__init__\<close>: two empty lists and no model; \<open>_mixing_weights\<close> is not created.\<close>

definition init :: "'r \<Rightarrow> ('mp, 'sp, 'v, 'e, 'r) world" where
  "init g =
     \<lparr>priv_components = [], priv_mixing_distribution_prior_counts = [],
      priv_boom_model = None, priv_mixing_weights = Missing,
      global_rng = g, emitted = []\<rparr>"

subsection \<open>Methods\<close>

definition add_component ::
  "'mp \<Rightarrow> 'sp \<Rightarrow> 'v \<Rightarrow> ('mp, 'sp, 'v, 'e, 'r) world \<Rightarrow> ('mp, 'sp, 'v, 'e, 'r) world" where
  "add_component mp sp prior_count s =
     (let s1 = s\<lparr>priv_mixing_distribution_prior_counts :=
                   priv_mixing_distribution_prior_counts s @ [prior_count]\<rparr>;
          s2 = s1\<lparr>priv_mixing_weights := PyNone\<rparr>;
          component = \<lparr>mean_prior = mp, sample_size_prior = sp, draws = None\<rparr>
      in s2\<lparr>priv_components := priv_components s2 @ [component]\<rparr>)"

text \<open>The call without the third argument uses the default \<open>prior_count = 1.0\<close>.\<close>

definition add_component_default ::
  "'mp \<Rightarrow> 'sp \<Rightarrow> ('mp, 'sp, 'v::one, 'e, 'r) world \<Rightarrow> ('mp, 'sp, 'v, 'e, 'r) world" where
  "add_component_default mp sp s = add_component mp sp 1 s"

definition number_of_mixture_components :: "('mp, 'sp, 'v, 'e, 'r) world \<Rightarrow> nat" where
  "number_of_mixture_components s = length (priv_mixing_distribution_prior_counts s)"

definition build_boom_model ::
  "('mp, 'sp, 'v, 'e, 'r, 'c) env \<Rightarrow> ('mp, 'sp, 'v, 'e, 'r) world \<Rightarrow> error + 'e" where
  "build_boom_model env s =
     boom_build env (priv_mixing_distribution_prior_counts s)
       (map (\<lambda>c. (mean_prior c, sample_size_prior c)) (priv_components s))"

text \<open>The argument of \<open>add_data\<close>: a pandas DataFrame or a NumPy array.\<close>

datatype 'c table = DataFrame "'c ndarray" | NdArray "'c ndarray"

fun values_of :: "'c table \<Rightarrow> 'c ndarray" where
  "values_of (DataFrame t) = t"
| "values_of (NdArray t) = t"

text \<open>
  The three arguments of the engine call, \<open>data[:, 0]\<close>, \<open>data[:, 1]\<close> and \<open>data[:, 2]\<close>
  of the table cast to \<open>int\<close>, evaluated from left to right.
\<close>

definition add_data_columns ::
  "('mp, 'sp, 'v, 'e, 'r, 'c) env \<Rightarrow> 'c table \<Rightarrow> error + (int list \<times> int list \<times> int list)" where
  "add_data_columns env data =
     (case astype (cast_int env) (values_of data) of
        Inl e \<Rightarrow> Inl e
      | Inr t \<Rightarrow>
         (case getitem_col t 0 of
            Inl e \<Rightarrow> Inl e
          | Inr c0 \<Rightarrow>
             (case getitem_col t 1 of
                Inl e \<Rightarrow> Inl e
              | Inr c1 \<Rightarrow>
                 (case getitem_col t 2 of
                    Inl e \<Rightarrow> Inl e
                  | Inr c2 \<Rightarrow> Inr (c0, c1, c2)))))"

definition add_data ::
  "('mp, 'sp, 'v, 'e, 'r, 'c) env \<Rightarrow> 'c table \<Rightarrow> ('mp, 'sp, 'v, 'e, 'r) world
     \<Rightarrow> error option \<times> ('mp, 'sp, 'v, 'e, 'r) world" where
  "add_data env data s =
     (case (case priv_boom_model s of
              None \<Rightarrow> (case build_boom_model env s of
                         Inl e \<Rightarrow> Inl e
                       | Inr m \<Rightarrow> Inr (m, s\<lparr>priv_boom_model := Some m\<rparr>))
            | Some m \<Rightarrow> Inr (m, s)) of
        Inl e \<Rightarrow> (Some e, s)
      | Inr (m, s1) \<Rightarrow>
         (case add_data_columns env data of
            Inl e \<Rightarrow> (Some e, s1)
          | Inr (c0, c1, c2) \<Rightarrow>
             (case boom_add_data env m c0 c1 c2 of
                (r, m') \<Rightarrow> (r, s1\<lparr>priv_boom_model := Some m'\<rparr>))))"

text \<open>\<open>_create_storage\<close>: first the loop over the components, then the mixing weights.\<close>

fun create_component_storage ::
  "(nat \<Rightarrow> nat \<Rightarrow> 'v) \<Rightarrow> int \<Rightarrow> ('mp, 'sp, 'v) component list
     \<Rightarrow> error option \<times> ('mp, 'sp, 'v) component list" where
  "create_component_storage u n [] = (None, [])"
| "create_component_storage u n (c # cs) =
     (case np_empty u n 2 of
        Inl e \<Rightarrow> (Some e, c # cs)
      | Inr d \<Rightarrow>
         (case create_component_storage u n cs of
            (r, cs') \<Rightarrow> (r, c\<lparr>draws := Some d\<rparr> # cs')))"

definition create_storage ::
  "('mp, 'sp, 'v, 'e, 'r, 'c) env \<Rightarrow> int \<Rightarrow> ('mp, 'sp, 'v, 'e, 'r) world
     \<Rightarrow> error option \<times> ('mp, 'sp, 'v, 'e, 'r) world" where
  "create_storage env n s =
     (case create_component_storage (np_uninit env) n (priv_components s) of
        (Some e, cs) \<Rightarrow> (Some e, s\<lparr>priv_components := cs\<rparr>)
      | (None, cs) \<Rightarrow>
         (let s1 = s\<lparr>priv_components := cs\<rparr> in
          case np_empty (np_uninit env) n (int (number_of_mixture_components s1)) of
            Inl e \<Rightarrow> (Some e, s1)
          | Inr w \<Rightarrow> (None, s1\<lparr>priv_mixing_weights := Array w\<rparr>)))"

text \<open>
  \<open>_record_draw\<close>. For the component at position \<open>c\<close> the right-hand side is evaluated
  first (the two reads \<open>mixture_component(c).a\<close> and \<open>mixture_component(c).b\<close>, taken
  together as one read of the pair), then \<open>component["draws"]\<close> is looked up, then the
  row is stored.
\<close>

fun record_component_draws ::
  "('mp, 'sp, 'v, 'e, 'r, 'c) env \<Rightarrow> 'e option \<Rightarrow> nat \<Rightarrow> nat \<Rightarrow> ('mp, 'sp, 'v) component list
     \<Rightarrow> error option \<times> ('mp, 'sp, 'v) component list" where
  "record_component_draws env bm i c [] = (None, [])"
| "record_component_draws env bm i c (component # rest) =
     (case bm of
        None \<Rightarrow> (Some AttributeError, component # rest)
      | Some m \<Rightarrow>
         (case boom_mixture_component env m c of
            Inl e \<Rightarrow> (Some e, component # rest)
          | Inr (a, b) \<Rightarrow>
             (case draws component of
                None \<Rightarrow> (Some KeyError, component # rest)
              | Some d \<Rightarrow>
                 (case setitem_row d i [a, b] of
                    Inl e \<Rightarrow> (Some e, component # rest)
                  | Inr d' \<Rightarrow>
                     (case record_component_draws env bm i (Suc c) rest of
                        (r, rest') \<Rightarrow> (r, component\<lparr>draws := Some d'\<rparr> # rest'))))))"

definition record_draw ::
  "('mp, 'sp, 'v, 'e, 'r, 'c) env \<Rightarrow> nat \<Rightarrow> ('mp, 'sp, 'v, 'e, 'r) world
     \<Rightarrow> error option \<times> ('mp, 'sp, 'v, 'e, 'r) world" where
  "record_draw env i s =
     (case record_component_draws env (priv_boom_model s) i 0 (priv_components s) of
        (Some e, cs) \<Rightarrow> (Some e, s\<lparr>priv_components := cs\<rparr>)
      | (None, cs) \<Rightarrow>
         (let s1 = s\<lparr>priv_components := cs\<rparr> in
          case priv_boom_model s1 of
            None \<Rightarrow> (Some AttributeError, s1)
          | Some m \<Rightarrow>
             (case boom_probs env m of
                Inl e \<Rightarrow> (Some e, s1)
              | Inr p \<Rightarrow>
                 (case priv_mixing_weights s1 of
                    Missing \<Rightarrow> (Some AttributeError, s1)
                  | PyNone \<Rightarrow> (Some TypeError, s1)
                  | Array w \<Rightarrow>
                     (case setitem_row w i p of
                        Inl e \<Rightarrow> (Some e, s1)
                      | Inr w' \<Rightarrow> (None, s1\<lparr>priv_mixing_weights := Array w'\<rparr>))))))"

text \<open>The body of the loop \<open>for i in range(niter)\<close> of \<open>mcmc\<close>, over the list of indices.\<close>

fun mcmc_loop ::
  "('mp, 'sp, 'v, 'e, 'r, 'c) env \<Rightarrow> int option \<Rightarrow> nat list \<Rightarrow> ('mp, 'sp, 'v, 'e, 'r) world
     \<Rightarrow> error option \<times> ('mp, 'sp, 'v, 'e, 'r) world" where
  "mcmc_loop env ping [] s = (None, s)"
| "mcmc_loop env ping (i # rest) s =
     (let s1 = s\<lparr>emitted := emitted s @ [Progress i ping]\<rparr> in
      case priv_boom_model s1 of
        None \<Rightarrow> (Some AttributeError, s1)
      | Some m \<Rightarrow>
         (case boom_sample_posterior env m (global_rng s1) of
            (r, m', g') \<Rightarrow>
              (let s2 = s1\<lparr>priv_boom_model := Some m', global_rng := g'\<rparr> in
               case r of
                 Some e \<Rightarrow> (Some e, s2)
               | None \<Rightarrow>
                  (case record_draw env i s2 of
                     (Some e, s3) \<Rightarrow> (Some e, s3)
                   | (None, s3) \<Rightarrow> mcmc_loop env ping rest s3))))"

definition no_data_warning :: string where
  "no_data_warning = ''Running MCMC on a model with no data assigned.''"

text \<open>
  \<open>mcmc\<close>: the guarded build with its warning, \<open>_create_storage\<close>, the optional seeding
  of the process-wide generator (which may raise, after the storage is allocated), and
  the loop.
\<close>

definition mcmc ::
  "('mp, 'sp, 'v, 'e, 'r, 'c) env \<Rightarrow> int \<Rightarrow> int option \<Rightarrow> int option
     \<Rightarrow> ('mp, 'sp, 'v, 'e, 'r) world \<Rightarrow> error option \<times> ('mp, 'sp, 'v, 'e, 'r) world" where
  "mcmc env n ping seed s =
     (case (case priv_boom_model s of
              None \<Rightarrow> (case build_boom_model env s of
                         Inl e \<Rightarrow> Inl e
                       | Inr m \<Rightarrow> Inr (s\<lparr>priv_boom_model := Some m,
                                         emitted := emitted s @ [Warning no_data_warning]\<rparr>))
            | Some m \<Rightarrow> Inr s) of
        Inl e \<Rightarrow> (Some e, s)
      | Inr s1 \<Rightarrow>
         (case create_storage env n s1 of
            (Some e, s2) \<Rightarrow> (Some e, s2)
          | (None, s2) \<Rightarrow>
             (case (case seed of
                      None \<Rightarrow> Inr s2
                    | Some sd \<Rightarrow> (case rng_seed env sd (global_rng s2) of
                                   Inl e \<Rightarrow> Inl e
                                 | Inr g \<Rightarrow> Inr (s2\<lparr>global_rng := g\<rparr>))) of
                Inl e \<Rightarrow> (Some e, s2)
              | Inr s3 \<Rightarrow> mcmc_loop env ping [0..<nat n] s3)))"

subsection \<open>Properties\<close>

definition niter :: "('mp, 'sp, 'v, 'e, 'r) world \<Rightarrow> error + nat" where
  "niter s =
     (case priv_mixing_weights s of
        Missing \<Rightarrow> Inl AttributeError
      | PyNone \<Rightarrow> Inr 0
      | Array w \<Rightarrow> Inr (nrows w))"

text \<open>
  The loop of the properties \<open>a\<close> (\<open>j = 0\<close>) and \<open>b\<close> (\<open>j = 1\<close>):
  \<open>ans[:, i] = self._components["draws"][:, j]\<close> for every \<open>i\<close> of the range.
\<close>

fun draws_loop ::
  "('mp, 'sp, 'v) component list \<Rightarrow> nat \<Rightarrow> nat list \<Rightarrow> 'v ndarray \<Rightarrow> error + 'v ndarray" where
  "draws_loop cs j [] ans = Inr ans"
| "draws_loop cs j (i # rest) ans =
     (case getitem_list_str cs ''draws'' of
        Inl e \<Rightarrow> Inl e
      | Inr d \<Rightarrow>
         (case getitem_col d j of
            Inl e \<Rightarrow> Inl e
          | Inr col \<Rightarrow>
             (case setitem_col ans i col of
                Inl e \<Rightarrow> Inl e
              | Inr ans' \<Rightarrow> draws_loop cs j rest ans')))"

definition draws_matrix ::
  "('mp, 'sp, 'v, 'e, 'r, 'c) env \<Rightarrow> nat \<Rightarrow> ('mp, 'sp, 'v, 'e, 'r) world \<Rightarrow> error + 'v ndarray" where
  "draws_matrix env j s =
     (case niter s of
        Inl e \<Rightarrow> Inl e
      | Inr n \<Rightarrow>
         (case np_empty (np_uninit env) (int n) (int (number_of_mixture_components s)) of
            Inl e \<Rightarrow> Inl e
          | Inr ans \<Rightarrow>
              draws_loop (priv_components s) j [0..<number_of_mixture_components s] ans))"

definition prop_a ::
  "('mp, 'sp, 'v, 'e, 'r, 'c) env \<Rightarrow> ('mp, 'sp, 'v, 'e, 'r) world \<Rightarrow> error + 'v ndarray" where
  "prop_a env s = draws_matrix env 0 s"

definition prop_b ::
  "('mp, 'sp, 'v, 'e, 'r, 'c) env \<Rightarrow> ('mp, 'sp, 'v, 'e, 'r) world \<Rightarrow> error + 'v ndarray" where
  "prop_b env s = draws_matrix env 1 s"

definition means ::
  "('mp, 'sp, 'v::{plus,inverse}, 'e, 'r, 'c) env \<Rightarrow> ('mp, 'sp, 'v, 'e, 'r) world
     \<Rightarrow> error + 'v ndarray" where
  "means env s =
     (case prop_a env s of
        Inl e \<Rightarrow> Inl e
      | Inr a \<Rightarrow>
         (case prop_b env s of
            Inl e \<Rightarrow> Inl e
          | Inr b \<Rightarrow>
             (case elementwise (+) a b of
                Inl e \<Rightarrow> Inl e
              | Inr ab \<Rightarrow> elementwise (/) a ab)))"

definition sample_sizes ::
  "('mp, 'sp, 'v::plus, 'e, 'r, 'c) env \<Rightarrow> ('mp, 'sp, 'v, 'e, 'r) world
     \<Rightarrow> error + 'v ndarray" where
  "sample_sizes env s =
     (case prop_a env s of
        Inl e \<Rightarrow> Inl e
      | Inr a \<Rightarrow>
         (case prop_b env s of
            Inl e \<Rightarrow> Inl e
          | Inr b \<Rightarrow> elementwise (+) a b))"

text \<open>The property \<open>mixing_weights\<close> returns the attribute: \<open>None\<close> or the array.\<close>

definition mixing_weights :: "('mp, 'sp, 'v, 'e, 'r) world \<Rightarrow> error + 'v ndarray option" where
  "mixing_weights s =
     (case priv_mixing_weights s of
        Missing \<Rightarrow> Inl AttributeError
      | PyNone \<Rightarrow> Inr None
      | Array w \<Rightarrow> Inr (Some w))"

subsection \<open>Sequences of calls\<close>

datatype ('mp, 'sp, 'v, 'c) call =
  AddComponent 'mp 'sp 'v
| AddData "'c table"
| Mcmc int "int option" "int option"

fun exec ::
  "('mp, 'sp, 'v, 'e, 'r, 'c) env \<Rightarrow> ('mp, 'sp, 'v, 'c) call \<Rightarrow> ('mp, 'sp, 'v, 'e, 'r) world
     \<Rightarrow> error option \<times> ('mp, 'sp, 'v, 'e, 'r) world" where
  "exec env (AddComponent mp sp pc) s = (None, add_component mp sp pc s)"
| "exec env (AddData data) s = add_data env data s"
| "exec env (Mcmc n ping seed) s = mcmc env n ping seed s"

text \<open>
  A caller's sequence of calls on one object; a call that raises leaves the object as
  it is at that moment and the caller goes on with the next call.
\<close>

fun run ::
  "('mp, 'sp, 'v, 'e, 'r, 'c) env \<Rightarrow> ('mp, 'sp, 'v, 'c) call list \<Rightarrow> ('mp, 'sp, 'v, 'e, 'r) world
     \<Rightarrow> ('mp, 'sp, 'v, 'e, 'r) world" where
  "run env [] s = s"
| "run env (c # cs) s = run env cs (snd (exec env c s))"

fun is_add_component :: "('mp, 'sp, 'v, 'c) call \<Rightarrow> bool" where
  "is_add_component (AddComponent mp sp pc) = True"
| "is_add_component (AddData data) = False"
| "is_add_component (Mcmc n ping seed) = False"

subsection \<open>A small engine for running the driver\<close>

text \<open>
  Modelled from the spec: the BOOM engine (\<open>BayesBoom.boom\<close>) is not part of the file;
  this is the smallest engine with the interface of the spec's collaborator contract
  (section 6). Its model object remembers the dimension of the mixing distribution, the
  number of component models and the data it was given. Every component keeps the
  placeholder parameters \<open>(1, 1)\<close> it is built with, the mixing weights are uniform, and
  a sampling step only advances the generator. Seeding accepts the integers of the
  signed 64-bit range and raises TypeError for any other. Memory is zero-filled and
  table cells are integers already. It is used to run the driver on concrete inputs.
\<close>

record toy_model =
  mix_dim :: nat
  n_component_models :: nat
  received :: "(int list \<times> int list \<times> int list) list"

definition toy_env :: "(real \<times> real, real \<times> real, real, toy_model, nat, int) env" where
  "toy_env =
     \<lparr>boom_build = (\<lambda>pcs specs.
        Inr \<lparr>mix_dim = length pcs, n_component_models = length specs, received = []\<rparr>),
      boom_add_data = (\<lambda>m t s c. (None, m\<lparr>received := received m @ [(t, s, c)]\<rparr>)),
      boom_sample_posterior = (\<lambda>m g. (None, m, Suc g)),
      boom_mixture_component = (\<lambda>m c.
        if c < n_component_models m then Inr (1, 1) else Inl IndexError),
      boom_probs = (\<lambda>m. Inr (replicate (mix_dim m) (1 / real (mix_dim m)))),
      rng_seed = (\<lambda>sd g.
        if - 9223372036854775808 \<le> sd \<and> sd < 9223372036854775808 then Inr (nat \<bar>sd\<bar>)
        else Inl TypeError),
      np_uninit = (\<lambda>i j. 0),
      cast_int = Inr\<rparr>"

text \<open>A fresh object in a process whose generator is in state \<open>0\<close>.\<close>

definition toy_init :: "(real \<times> real, real \<times> real, real, toy_model, nat) world" where
  "toy_init = init 0"

subsection \<open>Predicates on the state\<close>

text \<open>The two priors of a component, and the priors of all components in list order.\<close>

definition spec_of :: "('mp, 'sp, 'v) component \<Rightarrow> 'mp \<times> 'sp" where
  "spec_of c = (mean_prior c, sample_size_prior c)"

definition specs :: "('mp, 'sp, 'v, 'e, 'r) world \<Rightarrow> ('mp \<times> 'sp) list" where
  "specs s = map spec_of (priv_components s)"

text \<open>A component holds a draws table of \<open>n\<close> rows; a draws table, if any, has two columns.\<close>

definition draws_rows :: "nat \<Rightarrow> ('mp, 'sp, 'v) component \<Rightarrow> bool" where
  "draws_rows n c = (case draws c of None \<Rightarrow> False | Some d \<Rightarrow> nrows d = n)"

definition draws_two_cols :: "('mp, 'sp, 'v) component \<Rightarrow> bool" where
  "draws_two_cols c = (case draws c of None \<Rightarrow> True | Some d \<Rightarrow> ncols d = 2)"

text \<open>The mixing-weight table is allocated with \<open>n\<close> rows.\<close>

definition weights_rows :: "nat \<Rightarrow> ('mp, 'sp, 'v, 'e, 'r) world \<Rightarrow> bool" where
  "weights_rows n s =
     (case priv_mixing_weights s of Missing \<Rightarrow> False | PyNone \<Rightarrow> False | Array w \<Rightarrow> nrows w = n)"

text \<open>The mixing-weight table, if allocated, has one column per component.\<close>

definition weights_cols_ok :: "('mp, 'sp, 'v, 'e, 'r) world \<Rightarrow> bool" where
  "weights_cols_ok s =
     (case priv_mixing_weights s of
        Missing \<Rightarrow> True
      | PyNone \<Rightarrow> True
      | Array w \<Rightarrow> ncols w = number_of_mixture_components s)"

text \<open>Every table of the draw storage is allocated and has \<open>n\<close> rows.\<close>

definition storage_rows :: "nat \<Rightarrow> ('mp, 'sp, 'v, 'e, 'r) world \<Rightarrow> bool" where
  "storage_rows n s = (weights_rows n s \<and> list_all (draws_rows n) (priv_components s))"

text \<open>
  The two parallel lists have one length, the allocated mixing-weight table has that
  many columns, and every allocated per-component table has two columns.
\<close>

definition storage_invariant :: "('mp, 'sp, 'v, 'e, 'r) world \<Rightarrow> bool" where
  "storage_invariant s =
     (length (priv_mixing_distribution_prior_counts s) = length (priv_components s)
      \<and> weights_cols_ok s
      \<and> list_all draws_two_cols (priv_components s))"

text \<open>\<open>add_component\<close> has run on the object: the attribute exists and a count is stored.\<close>

definition has_component :: "('mp, 'sp, 'v, 'e, 'r) world \<Rightarrow> bool" where
  "has_component s =
     (priv_mixing_weights s \<noteq> Missing \<and> priv_mixing_distribution_prior_counts s \<noteq> [])"

text \<open>
  The object as the first statement of \<open>add_data\<close> leaves it: the model is built if
  there was none and the build did not raise; nothing else is touched.
\<close>

definition after_build ::
  "('mp, 'sp, 'v, 'e, 'r, 'c) env \<Rightarrow> ('mp, 'sp, 'v, 'e, 'r) world \<Rightarrow> ('mp, 'sp, 'v, 'e, 'r) world" where
  "after_build env s =
     (case priv_boom_model s of
        Some m \<Rightarrow> s
      | None \<Rightarrow> (case build_boom_model env s of
                   Inl e \<Rightarrow> s
                 | Inr m \<Rightarrow> s\<lparr>priv_boom_model := Some m\<rparr>))"

text \<open>
  The statement \<open>if seed is not None: boom.GlobalRng.rng.seed(int(seed))\<close> on its own:
  the generator the loop starts from, or the exception of the seeding call.
\<close>

definition seeded_rng ::
  "('mp, 'sp, 'v, 'e, 'r, 'c) env \<Rightarrow> int option \<Rightarrow> 'r \<Rightarrow> error + 'r" where
  "seeded_rng env seed g = (case seed of None \<Rightarrow> Inr g | Some sd \<Rightarrow> rng_seed env sd g)"


text \<open>The object with its draw storage discarded.\<close>

definition clear_storage :: "('mp, 'sp, 'v, 'e, 'r) world \<Rightarrow> ('mp, 'sp, 'v, 'e, 'r) world" where
  "clear_storage s =
     s\<lparr>priv_components := map (\<lambda>c. c\<lparr>draws := None\<rparr>) (priv_components s),
       priv_mixing_weights := PyNone\<rparr>"

section \<open>Auxiliary facts\<close>

text \<open>
  Shapes of arrays, what each method leaves unchanged, and what each method preserves:
  the frame of \<open>_create_storage\<close>, \<open>_record_draw\<close>, the sampling loop, \<open>mcmc\<close> and
  \<open>add_data\<close>, lifted to sequences of calls.
\<close>

lemma np_empty_shape:
  "np_empty u n k = Inr m \<Longrightarrow> nrows m = nat n \<and> ncols m = nat k \<and> 0 \<le> n \<and> 0 \<le> k"
  by (auto simp: np_empty_def nrows_def split: if_splits)

lemma np_empty_nonneg: "0 \<le> n \<Longrightarrow> 0 \<le> k \<Longrightarrow> \<exists>m. np_empty u n k = Inr m"
  by (simp add: np_empty_def)

lemma setitem_row_shape:
  "setitem_row m i vs = Inr m' \<Longrightarrow> nrows m' = nrows m \<and> ncols m' = ncols m"
  by (auto simp: setitem_row_def nrows_def split: if_splits)


lemma add_component_fields:
  "priv_components (add_component mp sp pc s) =
     priv_components s @ [\<lparr>mean_prior = mp, sample_size_prior = sp, draws = None\<rparr>]"
  "priv_mixing_distribution_prior_counts (add_component mp sp pc s) =
     priv_mixing_distribution_prior_counts s @ [pc]"
  "priv_mixing_weights (add_component mp sp pc s) = PyNone"
  "priv_boom_model (add_component mp sp pc s) = priv_boom_model s"
  "global_rng (add_component mp sp pc s) = global_rng s"
  "emitted (add_component mp sp pc s) = emitted s"
  by (simp_all add: add_component_def Let_def)

lemma create_component_storage_specs:
  "create_component_storage u n cs = (r, cs') \<Longrightarrow> map spec_of cs' = map spec_of cs"
proof (induction cs arbitrary: r cs')
  case Nil
  then show ?case by simp
next
  case (Cons c cs)
  then show ?case
    by (auto simp: spec_of_def split: sum.splits prod.splits)
qed

lemma create_component_storage_two_cols:
  "create_component_storage u n cs = (r, cs') \<Longrightarrow> list_all draws_two_cols cs
     \<Longrightarrow> list_all draws_two_cols cs'"
proof (induction cs arbitrary: r cs')
  case Nil
  then show ?case by simp
next
  case (Cons c cs)
  then show ?case
    by (auto simp: draws_two_cols_def dest: np_empty_shape split: sum.splits prod.splits)
qed

lemma create_component_storage_rows:
  "create_component_storage u n cs = (None, cs') \<Longrightarrow> list_all (draws_rows (nat n)) cs'"
proof (induction cs arbitrary: cs')
  case Nil
  then show ?case by simp
next
  case (Cons c cs)
  then show ?case
    by (auto simp: draws_rows_def dest: np_empty_shape split: sum.splits prod.splits)
qed


lemma create_storage_frame:
  assumes "create_storage env n s = (r, s')"
  shows "priv_mixing_distribution_prior_counts s' = priv_mixing_distribution_prior_counts s"
    and "specs s' = specs s"
    and "priv_boom_model s' = priv_boom_model s"
    and "global_rng s' = global_rng s"
    and "emitted s' = emitted s"
  using assms
  by (auto simp: create_storage_def specs_def Let_def
      dest: create_component_storage_specs split: prod.splits option.splits sum.splits)

lemma create_storage_invariant:
  assumes "create_storage env n s = (r, s')" and "storage_invariant s"
  shows "storage_invariant s'"
proof -
  obtain q cs where c: "create_component_storage (np_uninit env) n (priv_components s) = (q, cs)"
    by (cases "create_component_storage (np_uninit env) n (priv_components s)")
  have len: "length cs = length (priv_components s)"
    using create_component_storage_specs [OF c] by (metis length_map)
  have two: "list_all draws_two_cols cs"
    using create_component_storage_two_cols [OF c] assms(2) by (simp add: storage_invariant_def)
  show ?thesis
    using assms c len two
    by (auto simp: create_storage_def storage_invariant_def weights_cols_ok_def
        number_of_mixture_components_def Let_def
        dest: np_empty_shape split: option.splits sum.splits slot.splits)
qed

lemma create_storage_rows:
  assumes "create_storage env n s = (None, s')"
  shows "storage_rows (nat n) s' \<and> 0 \<le> n"
  using assms
  by (auto simp: create_storage_def storage_rows_def weights_rows_def Let_def
      dest: np_empty_shape create_component_storage_rows
      split: prod.splits option.splits sum.splits)

lemma create_storage_has_component:
  assumes "create_storage env n s = (r, s')" and "has_component s"
  shows "has_component s'"
  using assms
  by (auto simp: create_storage_def has_component_def Let_def
      split: prod.splits option.splits sum.splits)


lemma record_component_draws_specs:
  "record_component_draws env bm i c cs = (r, cs') \<Longrightarrow> map spec_of cs' = map spec_of cs"
proof (induction cs arbitrary: c r cs')
  case Nil
  then show ?case by simp
next
  case (Cons x xs)
  then show ?case
    by (auto simp: spec_of_def split: sum.splits prod.splits option.splits)
qed

lemma draws_two_cols_setitem:
  "draws x = Some d \<Longrightarrow> draws_two_cols x \<Longrightarrow> setitem_row d i vs = Inr d'
     \<Longrightarrow> draws_two_cols (x\<lparr>draws := Some d'\<rparr>)"
  by (auto simp: draws_two_cols_def dest: setitem_row_shape)

lemma draws_rows_setitem:
  "draws x = Some d \<Longrightarrow> draws_rows n x \<Longrightarrow> setitem_row d i vs = Inr d'
     \<Longrightarrow> draws_rows n (x\<lparr>draws := Some d'\<rparr>)"
  by (auto simp: draws_rows_def dest: setitem_row_shape)

lemma record_component_draws_two_cols:
  "record_component_draws env bm i c cs = (r, cs') \<Longrightarrow> list_all draws_two_cols cs
     \<Longrightarrow> list_all draws_two_cols cs'"
proof (induction cs arbitrary: c r cs')
  case Nil
  then show ?case by simp
next
  case (Cons x xs)
  then show ?case
    by (auto intro: draws_two_cols_setitem split: sum.splits prod.splits option.splits)
qed

lemma record_component_draws_rows:
  "record_component_draws env bm i c cs = (r, cs') \<Longrightarrow> list_all (draws_rows n) cs
     \<Longrightarrow> list_all (draws_rows n) cs'"
proof (induction cs arbitrary: c r cs')
  case Nil
  then show ?case by simp
next
  case (Cons x xs)
  then show ?case
    by (auto intro: draws_rows_setitem split: sum.splits prod.splits option.splits)
qed

lemma record_draw_frame:
  assumes "record_draw env i s = (r, s')"
  shows "priv_mixing_distribution_prior_counts s' = priv_mixing_distribution_prior_counts s"
    and "specs s' = specs s"
    and "priv_boom_model s' = priv_boom_model s"
    and "global_rng s' = global_rng s"
    and "emitted s' = emitted s"
  using assms
  by (auto simp: record_draw_def specs_def Let_def
      dest: record_component_draws_specs
      split: prod.splits option.splits sum.splits slot.splits)

lemma record_draw_has_component:
  assumes "record_draw env i s = (r, s')" and "has_component s"
  shows "has_component s'"
  using assms
  by (auto simp: record_draw_def has_component_def Let_def
      split: prod.splits option.splits sum.splits slot.splits)

lemma record_draw_rows:
  assumes "record_draw env i s = (r, s')" and "storage_rows n s"
  shows "storage_rows n s'"
  using assms
  by (auto simp: record_draw_def storage_rows_def weights_rows_def Let_def
      dest: record_component_draws_rows setitem_row_shape
      split: prod.splits option.splits sum.splits slot.splits)

lemma record_draw_invariant:
  assumes "record_draw env i s = (r, s')" and "storage_invariant s"
  shows "storage_invariant s'"
proof -
  obtain q cs where c:
    "record_component_draws env (priv_boom_model s) i 0 (priv_components s) = (q, cs)"
    by (cases "record_component_draws env (priv_boom_model s) i 0 (priv_components s)")
  have len: "length cs = length (priv_components s)"
    using record_component_draws_specs [OF c] by (metis length_map)
  have two: "list_all draws_two_cols cs"
    using record_component_draws_two_cols [OF c] assms(2) by (simp add: storage_invariant_def)
  show ?thesis
    using assms c len two
    by (auto simp: record_draw_def storage_invariant_def weights_cols_ok_def
        number_of_mixture_components_def Let_def
        dest: setitem_row_shape split: option.splits sum.splits slot.splits)
qed

lemma mcmc_loop_frame:
  "mcmc_loop env ping idx s = (r, s') \<Longrightarrow>
     priv_mixing_distribution_prior_counts s' = priv_mixing_distribution_prior_counts s
     \<and> specs s' = specs s"
proof (induction idx arbitrary: s)
  case Nil
  then show ?case by simp
next
  case (Cons i rest)
  then show ?case
    by (fastforce simp: Let_def specs_def dest: record_draw_frame(1,2)
        split: option.splits prod.splits)
qed

lemma mcmc_loop_has_component:
  "mcmc_loop env ping idx s = (r, s') \<Longrightarrow> has_component s \<Longrightarrow> has_component s'"
proof (induction idx arbitrary: s)
  case Nil
  then show ?case by simp
next
  case (Cons i rest)
  have step: "has_component (s\<lparr>emitted := ev, priv_boom_model := bm, global_rng := g\<rparr>)"
    for ev bm g using Cons.prems(2) by (simp add: has_component_def)
  have step0: "has_component (s\<lparr>emitted := ev\<rparr>)" for ev
    using Cons.prems(2) by (simp add: has_component_def)
  from Cons.prems(1) show ?case
    by (auto simp: Let_def split: option.splits prod.splits
        intro: step step0 dest!: record_draw_has_component [OF _ step] Cons.IH)
qed

lemma mcmc_loop_invariant:
  "mcmc_loop env ping idx s = (r, s') \<Longrightarrow> storage_invariant s \<Longrightarrow> storage_invariant s'"
proof (induction idx arbitrary: s)
  case Nil
  then show ?case by simp
next
  case (Cons i rest)
  have step: "storage_invariant (s\<lparr>emitted := ev, priv_boom_model := bm, global_rng := g\<rparr>)"
    for ev bm g using Cons.prems(2)
    by (simp add: storage_invariant_def weights_cols_ok_def number_of_mixture_components_def
        split: slot.splits)
  have step0: "storage_invariant (s\<lparr>emitted := ev\<rparr>)" for ev
    using Cons.prems(2)
    by (simp add: storage_invariant_def weights_cols_ok_def number_of_mixture_components_def
        split: slot.splits)
  from Cons.prems(1) show ?case
    by (auto simp: Let_def split: option.splits prod.splits
        intro: step step0 dest!: record_draw_invariant [OF _ step] Cons.IH)
qed

lemma mcmc_loop_rows:
  "mcmc_loop env ping idx s = (r, s') \<Longrightarrow> storage_rows n s \<Longrightarrow> storage_rows n s'"
proof (induction idx arbitrary: s)
  case Nil
  then show ?case by simp
next
  case (Cons i rest)
  have step: "storage_rows n (s\<lparr>emitted := ev, priv_boom_model := bm, global_rng := g\<rparr>)"
    for ev bm g using Cons.prems(2)
    by (simp add: storage_rows_def weights_rows_def)
  have step0: "storage_rows n (s\<lparr>emitted := ev\<rparr>)" for ev
    using Cons.prems(2)
    by (simp add: storage_rows_def weights_rows_def)
  from Cons.prems(1) show ?case
    by (auto simp: Let_def split: option.splits prod.splits
        intro: step step0 dest!: record_draw_rows [OF _ step] Cons.IH)
qed

lemma has_component_irrelevant [simp]:
  "has_component (s\<lparr>priv_boom_model := bm\<rparr>) = has_component s"
  "has_component (s\<lparr>emitted := ev\<rparr>) = has_component s"
  "has_component (s\<lparr>global_rng := g\<rparr>) = has_component s"
  by (simp_all add: has_component_def)

lemma storage_invariant_irrelevant [simp]:
  "storage_invariant (s\<lparr>priv_boom_model := bm\<rparr>) = storage_invariant s"
  "storage_invariant (s\<lparr>emitted := ev\<rparr>) = storage_invariant s"
  "storage_invariant (s\<lparr>global_rng := g\<rparr>) = storage_invariant s"
  by (simp_all add: storage_invariant_def weights_cols_ok_def number_of_mixture_components_def
      split: slot.splits)

lemma storage_rows_irrelevant [simp]:
  "storage_rows n (s\<lparr>priv_boom_model := bm\<rparr>) = storage_rows n s"
  "storage_rows n (s\<lparr>emitted := ev\<rparr>) = storage_rows n s"
  "storage_rows n (s\<lparr>global_rng := g\<rparr>) = storage_rows n s"
  by (simp_all add: storage_rows_def weights_rows_def)

lemma specs_irrelevant [simp]:
  "specs (s\<lparr>priv_boom_model := bm\<rparr>) = specs s"
  "specs (s\<lparr>emitted := ev\<rparr>) = specs s"
  "specs (s\<lparr>global_rng := g\<rparr>) = specs s"
  by (simp_all add: specs_def)

lemma mcmc_cases:
  assumes "mcmc env n ping seed s = (r, s')"
  obtains (build_failed) "s' = s" and "r \<noteq> None"
  | (storage_failed) bm ev q e where
      "create_storage env n (s\<lparr>priv_boom_model := bm, emitted := ev\<rparr>) = (q, s')"
      and "r = Some e"
  | (looped) bm ev s2 g where
      "create_storage env n (s\<lparr>priv_boom_model := bm, emitted := ev\<rparr>) = (None, s2)"
      and "mcmc_loop env ping [0..<nat n] (s2\<lparr>global_rng := g\<rparr>) = (r, s')"
proof -
  define s1 where "s1 =
    (case priv_boom_model s of
       None \<Rightarrow> (case build_boom_model env s of
                  Inl e \<Rightarrow> s
                | Inr m \<Rightarrow> s\<lparr>priv_boom_model := Some m,
                              emitted := emitted s @ [Warning no_data_warning]\<rparr>)
     | Some m \<Rightarrow> s)"
  have same: "\<exists>bm ev. s = s\<lparr>priv_boom_model := bm, emitted := ev\<rparr>"
    by (rule exI [of _ "priv_boom_model s"], rule exI [of _ "emitted s"]) simp
  have s1_form: "\<exists>bm ev. s1 = s\<lparr>priv_boom_model := bm, emitted := ev\<rparr>"
  proof (cases "priv_boom_model s")
    case None
    show ?thesis
    proof (cases "build_boom_model env s")
      case (Inl e)
      with None have "s1 = s" by (simp add: s1_def)
      with same show ?thesis by simp
    next
      case (Inr m)
      with None have "s1 = s\<lparr>priv_boom_model := Some m,
                              emitted := emitted s @ [Warning no_data_warning]\<rparr>"
        by (simp add: s1_def)
      then show ?thesis by blast
    qed
  next
    case (Some m)
    then have "s1 = s" by (simp add: s1_def)
    with same show ?thesis by simp
  qed
  then obtain bm ev where s1: "s1 = s\<lparr>priv_boom_model := bm, emitted := ev\<rparr>" by blast
  show ?thesis
  proof (cases "priv_boom_model s = None \<and> (\<exists>e. build_boom_model env s = Inl e)")
    case True
    with assms have "s' = s" and "r \<noteq> None" by (auto simp: mcmc_def)
    then show ?thesis by (rule build_failed)
  next
    case False
    obtain q s2 where cs: "create_storage env n s1 = (q, s2)"
      by (cases "create_storage env n s1")
    from False assms cs have rest:
      "(case q of
          Some e \<Rightarrow> (Some e, s2)
        | None \<Rightarrow> (case seeded_rng env seed (global_rng s2) of
                      Inl e \<Rightarrow> (Some e, s2)
                    | Inr g \<Rightarrow> mcmc_loop env ping [0..<nat n] (s2\<lparr>global_rng := g\<rparr>))) = (r, s')"
      unfolding mcmc_def s1_def seeded_rng_def
      by (auto simp: Let_def split: option.splits sum.splits)
    show ?thesis
    proof (cases q)
      case (Some e)
      with rest cs s1 have
        "create_storage env n (s\<lparr>priv_boom_model := bm, emitted := ev\<rparr>) = (Some e, s')"
        and "r = Some e" by auto
      then show ?thesis by (rule storage_failed)
    next
      case None
      from cs None s1 have cs':
        "create_storage env n (s\<lparr>priv_boom_model := bm, emitted := ev\<rparr>) = (None, s2)"
        by simp
      show ?thesis
      proof (cases "seeded_rng env seed (global_rng s2)")
        case (Inl e)
        with rest None have "s' = s2" and "r = Some e" by auto
        with cs' show ?thesis by (auto intro: storage_failed)
      next
        case (Inr g)
        with rest None have "mcmc_loop env ping [0..<nat n] (s2\<lparr>global_rng := g\<rparr>) = (r, s')"
          by simp
        with cs' show ?thesis by (rule looped)
      qed
    qed
  qed
qed

lemma mcmc_frame:
  assumes "mcmc env n ping seed s = (r, s')"
  shows "priv_mixing_distribution_prior_counts s' = priv_mixing_distribution_prior_counts s
         \<and> specs s' = specs s"
  using assms
proof (cases rule: mcmc_cases)
  case build_failed
  then show ?thesis by simp
next
  case (storage_failed bm ev q e)
  then show ?thesis
    using create_storage_frame(1,2) [OF storage_failed(1)] by simp
next
  case (looped bm ev s2 g)
  then show ?thesis
    using create_storage_frame(1,2) [OF looped(1)] mcmc_loop_frame [OF looped(2)] by simp
qed

lemma mcmc_has_component:
  assumes "mcmc env n ping seed s = (r, s')" and "has_component s"
  shows "has_component s'"
  using assms(1)
proof (cases rule: mcmc_cases)
  case build_failed
  then show ?thesis using assms(2) by simp
next
  case (storage_failed bm ev q e)
  then show ?thesis
    using create_storage_has_component [OF storage_failed(1)] assms(2) by simp
next
  case (looped bm ev s2 g)
  then show ?thesis
    using create_storage_has_component [OF looped(1)] mcmc_loop_has_component [OF looped(2)]
      assms(2) by simp
qed

lemma mcmc_invariant:
  assumes "mcmc env n ping seed s = (r, s')" and "storage_invariant s"
  shows "storage_invariant s'"
  using assms(1)
proof (cases rule: mcmc_cases)
  case build_failed
  then show ?thesis using assms(2) by simp
next
  case (storage_failed bm ev q e)
  then show ?thesis
    using create_storage_invariant [OF storage_failed(1)] assms(2) by simp
next
  case (looped bm ev s2 g)
  then show ?thesis
    using create_storage_invariant [OF looped(1)] mcmc_loop_invariant [OF looped(2)]
      assms(2) by simp
qed

lemma mcmc_rows:
  assumes "mcmc env n ping seed s = (None, s')"
  shows "storage_rows (nat n) s' \<and> 0 \<le> n"
  using assms
proof (cases rule: mcmc_cases)
  case build_failed
  then show ?thesis by simp
next
  case (storage_failed bm ev q e)
  then show ?thesis by simp
next
  case (looped bm ev s2 g)
  then show ?thesis
    using create_storage_rows [OF looped(1)] mcmc_loop_rows [OF looped(2), of "nat n"] by simp
qed

lemma add_data_only_model:
  "\<exists>bm. snd (add_data env data s) = s\<lparr>priv_boom_model := bm\<rparr>"
proof -
  have same: "\<exists>bm. s = s\<lparr>priv_boom_model := bm\<rparr>"
    by (rule exI [of _ "priv_boom_model s"]) simp
  have upd: "\<exists>bm. s\<lparr>priv_boom_model := x\<rparr> = s\<lparr>priv_boom_model := bm\<rparr>" for x
    by blast
  have upd2: "\<exists>bm. s\<lparr>priv_boom_model := x, priv_boom_model := y\<rparr> = s\<lparr>priv_boom_model := bm\<rparr>"
    for x y by (rule exI [of _ y]) simp
  show ?thesis
    unfolding add_data_def
    by (simp split: option.splits sum.splits prod.splits add: same upd)
qed

lemma add_data_frame:
  "priv_mixing_distribution_prior_counts (snd (add_data env data s)) =
     priv_mixing_distribution_prior_counts s"
  "priv_components (snd (add_data env data s)) = priv_components s"
  "priv_mixing_weights (snd (add_data env data s)) = priv_mixing_weights s"
  "global_rng (snd (add_data env data s)) = global_rng s"
  "emitted (snd (add_data env data s)) = emitted s"
  using add_data_only_model [of env data s] by auto

lemma exec_count:
  "number_of_mixture_components (snd (exec env c s)) =
     number_of_mixture_components s + (if is_add_component c then 1 else 0)"
proof (cases c)
  case (AddComponent mp sp pc)
  then show ?thesis
    by (simp add: number_of_mixture_components_def add_component_fields)
next
  case (AddData data)
  then show ?thesis
    by (simp add: number_of_mixture_components_def add_data_frame)
next
  case (Mcmc n ping seed)
  obtain r s' where m: "mcmc env n ping seed s = (r, s')" by (cases "mcmc env n ping seed s")
  with Mcmc mcmc_frame [OF m] show ?thesis
    by (simp add: number_of_mixture_components_def)
qed

lemma run_count:
  "number_of_mixture_components (run env cs s) =
     number_of_mixture_components s + length (filter is_add_component cs)"
  by (induction cs arbitrary: s) (simp_all add: exec_count)

lemma exec_has_component:
  "has_component s \<or> is_add_component c \<Longrightarrow> has_component (snd (exec env c s))"
proof (cases c)
  case (AddComponent mp sp pc)
  then show ?thesis by (simp add: has_component_def add_component_fields)
next
  case (AddData data)
  assume "has_component s \<or> is_add_component c"
  with AddData show ?thesis by (simp add: has_component_def add_data_frame)
next
  case (Mcmc n ping seed)
  assume h: "has_component s \<or> is_add_component c"
  obtain r s' where m: "mcmc env n ping seed s = (r, s')" by (cases "mcmc env n ping seed s")
  with Mcmc h mcmc_has_component [OF m] show ?thesis by simp
qed

lemma run_has_component:
  "has_component s \<or> list_ex is_add_component cs \<Longrightarrow> has_component (run env cs s)"
proof (induction cs arbitrary: s)
  case Nil
  then show ?case by simp
next
  case (Cons c cs)
  show ?case
  proof (cases "has_component s \<or> is_add_component c")
    case True
    then have "has_component (snd (exec env c s))" by (rule exec_has_component)
    then show ?thesis using Cons.IH by simp
  next
    case False
    with Cons.prems have "list_ex is_add_component cs" by simp
    then show ?thesis using Cons.IH by simp
  qed
qed

lemma exec_invariant:
  "storage_invariant s \<Longrightarrow> storage_invariant (snd (exec env c s))"
proof (cases c)
  case (AddComponent mp sp pc)
  assume "storage_invariant s"
  with AddComponent show ?thesis
    by (simp add: storage_invariant_def weights_cols_ok_def add_component_fields
        draws_two_cols_def)
next
  case (AddData data)
  assume "storage_invariant s"
  moreover obtain bm where "snd (add_data env data s) = s\<lparr>priv_boom_model := bm\<rparr>"
    using add_data_only_model by blast
  ultimately show ?thesis using AddData by simp
next
  case (Mcmc n ping seed)
  assume h: "storage_invariant s"
  obtain r s' where m: "mcmc env n ping seed s = (r, s')" by (cases "mcmc env n ping seed s")
  with Mcmc mcmc_invariant [OF m h] show ?thesis by simp
qed

lemma run_invariant:
  "storage_invariant s \<Longrightarrow> storage_invariant (run env cs s)"
  by (induction cs arbitrary: s) (simp_all add: exec_invariant)

lemma init_invariant: "storage_invariant (init g)"
  by (simp add: storage_invariant_def weights_cols_ok_def init_def)



lemma draws_matrix_raises:
  assumes "has_component s"
  shows "draws_matrix env j s = Inl TypeError"
proof -
  from assms have "\<exists>n. niter s = Inr n"
    by (cases "priv_mixing_weights s") (simp_all add: niter_def has_component_def)
  then obtain n where n: "niter s = Inr n" by blast
  obtain ans where ans:
    "np_empty (np_uninit env) (int n) (int (number_of_mixture_components s)) = Inr ans"
    by (simp add: np_empty_def)
  from assms have "0 < number_of_mixture_components s"
    by (simp add: has_component_def number_of_mixture_components_def)
  then have "[0..<number_of_mixture_components s] = 0 # [Suc 0..<number_of_mixture_components s]"
    by (simp add: upt_conv_Cons)
  then show ?thesis
    using n ans by (simp add: draws_matrix_def getitem_list_str_def)
qed







lemma create_component_storage_clear:
  "create_component_storage u n cs = (None, cs')
     \<Longrightarrow> create_component_storage u n (map (\<lambda>c. c\<lparr>draws := None\<rparr>) cs) = (None, cs')"
proof (induction cs arbitrary: cs')
  case Nil
  then show ?case by simp
next
  case (Cons c cs)
  then show ?case
    by (auto split: sum.splits prod.splits)
qed

lemma create_storage_clear:
  assumes "create_storage env n s = (None, s2)"
  shows "create_storage env n (clear_storage s) = (None, s2)"
proof -
  obtain cs where c: "create_component_storage (np_uninit env) n (priv_components s) = (None, cs)"
    using assms by (auto simp: create_storage_def split: prod.splits option.splits)
  from create_component_storage_clear [OF c] c assms show ?thesis
    by (auto simp: create_storage_def clear_storage_def number_of_mixture_components_def Let_def
        split: sum.splits)
qed

lemma clear_storage_fields [simp]:
  "priv_boom_model (clear_storage s) = priv_boom_model s"
  "build_boom_model env (clear_storage s) = build_boom_model env s"
  "emitted (clear_storage s) = emitted s"
  "(clear_storage s)\<lparr>priv_boom_model := bm, emitted := ev\<rparr>
     = clear_storage (s\<lparr>priv_boom_model := bm, emitted := ev\<rparr>)"
  by (simp_all add: clear_storage_def build_boom_model_def comp_def)

lemma mcmc_clear:
  assumes "mcmc env n ping seed s = (None, s')"
  shows "mcmc env n ping seed (clear_storage s) = (None, s')"
proof (cases "priv_boom_model s")
  case None
  show ?thesis
  proof (cases "build_boom_model env s")
    case (Inl e)
    with None assms show ?thesis by (simp add: mcmc_def)
  next
    case (Inr m)
    let ?s1 = "s\<lparr>priv_boom_model := Some m, emitted := emitted s @ [Warning no_data_warning]\<rparr>"
    obtain q s2 where cs: "create_storage env n ?s1 = (q, s2)"
      by (cases "create_storage env n ?s1")
    with None Inr assms have q: "q = None"
      by (cases q) (simp_all add: mcmc_def)
    from create_storage_clear cs q
    have "create_storage env n (clear_storage ?s1) = (None, s2)" by blast
    with None Inr assms cs q show ?thesis
      by (simp add: mcmc_def)
  qed
next
  case (Some m)
  obtain q s2 where cs: "create_storage env n s = (q, s2)"
    by (cases "create_storage env n s")
  with Some assms have q: "q = None"
    by (cases q) (simp_all add: mcmc_def)
  from create_storage_clear cs q
  have "create_storage env n (clear_storage s) = (None, s2)" by blast
  with Some assms cs q show ?thesis
    by (simp add: mcmc_def)
qed

lemma astype_ncols: "astype cast t = Inr t' \<Longrightarrow> ncols t' = ncols t"
  by (auto simp: astype_def split: sum.splits)

lemma add_data_columns_short:
  assumes "ncols (values_of data) < 3"
  shows "\<exists>e. add_data_columns env data = Inl e"
proof (cases "astype (cast_int env) (values_of data)")
  case (Inl e)
  then show ?thesis by (simp add: add_data_columns_def)
next
  case (Inr t)
  with assms have "ncols t < 3" by (simp add: astype_ncols)
  with Inr show ?thesis
    by (auto simp: add_data_columns_def getitem_col_def)
qed

lemma add_data_columns_cases:
  "astype (cast_int env) (values_of data) = Inl e \<Longrightarrow> add_data_columns env data = Inl e"
  "astype (cast_int env) (values_of data) = Inr t \<Longrightarrow> ncols (values_of data) < 3
     \<Longrightarrow> add_data_columns env data = Inl IndexError"
  "astype (cast_int env) (values_of data) = Inr t \<Longrightarrow> 3 \<le> ncols (values_of data)
     \<Longrightarrow> add_data_columns env data =
          Inr (map (\<lambda>r. r ! 0) (cells t), map (\<lambda>r. r ! 1) (cells t), map (\<lambda>r. r ! 2) (cells t))"
proof -
  show "astype (cast_int env) (values_of data) = Inl e \<Longrightarrow> add_data_columns env data = Inl e"
    by (simp add: add_data_columns_def)
next
  assume t: "astype (cast_int env) (values_of data) = Inr t" and "ncols (values_of data) < 3"
  then have "ncols t < 3" by (auto dest: astype_ncols)
  with t show "add_data_columns env data = Inl IndexError"
    by (auto simp: add_data_columns_def getitem_col_def)
next
  assume t: "astype (cast_int env) (values_of data) = Inr t" and "3 \<le> ncols (values_of data)"
  then have "3 \<le> ncols t" by (auto dest: astype_ncols)
  with t show "add_data_columns env data =
          Inr (map (\<lambda>r. r ! 0) (cells t), map (\<lambda>r. r ! 1) (cells t), map (\<lambda>r. r ! 2) (cells t))"
    by (simp add: add_data_columns_def getitem_col_def)
qed

lemma add_data_with_model:
  assumes "priv_boom_model (after_build env s) = Some m"
  shows "add_data env data s =
     (case add_data_columns env data of
        Inl e \<Rightarrow> (Some e, after_build env s)
      | Inr (c0, c1, c2) \<Rightarrow>
         (case boom_add_data env m c0 c1 c2 of
            (r, m') \<Rightarrow> (r, (after_build env s)\<lparr>priv_boom_model := Some m'\<rparr>)))"
proof (cases "priv_boom_model s")
  case None
  show ?thesis
  proof (cases "build_boom_model env s")
    case (Inl e)
    with None assms show ?thesis by (simp add: after_build_def)
  next
    case (Inr m1)
    with None assms have "m1 = m" by (simp add: after_build_def)
    with None Inr show ?thesis
      by (simp add: add_data_def after_build_def split: sum.splits prod.splits)
  qed
next
  case (Some m1)
  with assms have "m1 = m" by (simp add: after_build_def)
  with Some show ?thesis
    by (simp add: add_data_def after_build_def split: sum.splits prod.splits)
qed



section \<open>The claims\<close>

text \<open>
  Claim C1: in every state with a recorded sampling run, \<open>means\<close> is \<open>a / (a + b)\<close> and
  \<open>sample_sizes\<close> is \<open>a + b\<close>, element by element.
  The code does not get that far. On an object with one component, after \<open>mcmc(niter=1)\<close>
  has returned normally, reading \<open>means\<close> or \<open>sample_sizes\<close> raises TypeError: both read
  the property \<open>a\<close>, whose loop indexes the list \<open>_components\<close> with the string
  \<open>"draws"\<close>.
\<close>

theorem means_raise_after_sampling:
  "fst (mcmc toy_env 1 None None (add_component (1, 1) (1 / 10, 1000) 1 toy_init)) = None
   \<and> means toy_env
        (snd (mcmc toy_env 1 None None (add_component (1, 1) (1 / 10, 1000) 1 toy_init)))
       = Inl TypeError
   \<and> sample_sizes toy_env
        (snd (mcmc toy_env 1 None None (add_component (1, 1) (1 / 10, 1000) 1 toy_init)))
       = Inl TypeError"
  by code_simp

text \<open>
  Claim C2: on every object on which \<open>add_component\<close> has been called at least once,
  reading \<open>a\<close>, \<open>b\<close>, \<open>means\<close> or \<open>sample_sizes\<close> raises TypeError. The object is the
  result of any sequence of calls on a fresh object that contains an \<open>add_component\<close>
  call; the other calls may return or raise.
\<close>

theorem draw_properties_raise_type_error:
  assumes "list_ex is_add_component cs"
  shows "prop_a env (run env cs (init g)) = Inl TypeError
       \<and> prop_b env (run env cs (init g)) = Inl TypeError
       \<and> means env (run env cs (init g)) = Inl TypeError
       \<and> sample_sizes env (run env cs (init g)) = Inl TypeError"
proof -
  have "has_component (run env cs (init g))"
    using assms by (simp add: run_has_component)
  then have "draws_matrix env j (run env cs (init g)) = Inl TypeError" for j
    by (rule draws_matrix_raises)
  then show ?thesis
    by (simp add: prop_a_def prop_b_def means_def sample_sizes_def)
qed

theorem draw_properties_raise_type_error_witness:
  "list_ex is_add_component
     [AddComponent (1, 1) (1 / 10, 1000) 1,
      AddData (NdArray \<lparr>ncols = 3, cells = [[10, 4, 28], [5, 0, 2]]\<rparr>),
      Mcmc 2 None None]
   \<and> prop_a toy_env
       (run toy_env
          [AddComponent (1, 1) (1 / 10, 1000) 1,
           AddData (NdArray \<lparr>ncols = 3, cells = [[10, 4, 28], [5, 0, 2]]\<rparr>),
           Mcmc 2 None None] toy_init) = Inl TypeError
   \<and> means toy_env
       (run toy_env
          [AddComponent (1, 1) (1 / 10, 1000) 1,
           AddData (NdArray \<lparr>ncols = 3, cells = [[10, 4, 28], [5, 0, 2]]\<rparr>),
           Mcmc 2 None None] toy_init) = Inl TypeError"
proof -
  have h: "list_ex is_add_component
     [AddComponent (1, 1) (1 / 10, 1000) (1::real),
      AddData (NdArray \<lparr>ncols = 3, cells = [[10, 4, 28], [5, 0, 2::int]]\<rparr>),
      Mcmc 2 None None]" by simp
  show ?thesis
    using draw_properties_raise_type_error [OF h, of toy_env 0]
    by (simp add: toy_init_def)
qed

text \<open>
  Claim C3: after \<open>mcmc(niter=N)\<close> every draw matrix (\<open>a\<close>, \<open>b\<close>, \<open>means\<close>,
  \<open>sample_sizes\<close>, \<open>mixing_weights\<close>) has \<open>N\<close> rows and one column per component, and
  \<open>niter\<close> is \<open>N\<close>.
  On an object with two components \<open>mcmc(niter=3)\<close> returns normally, \<open>niter\<close> is \<open>3\<close>
  and \<open>mixing_weights\<close> has shape \<open>(3, 2)\<close>, but reading \<open>a\<close> or \<open>b\<close> raises TypeError
  instead of returning a matrix.
\<close>

theorem draw_matrices_raise_after_mcmc:
  "fst (mcmc toy_env 3 None None
          (add_component (1, 1) (1 / 10, 1000) 1
             (add_component (1, 1) (1 / 10, 1000) 1 toy_init))) = None
   \<and> prop_a toy_env (snd (mcmc toy_env 3 None None
          (add_component (1, 1) (1 / 10, 1000) 1
             (add_component (1, 1) (1 / 10, 1000) 1 toy_init)))) = Inl TypeError
   \<and> prop_b toy_env (snd (mcmc toy_env 3 None None
          (add_component (1, 1) (1 / 10, 1000) 1
             (add_component (1, 1) (1 / 10, 1000) 1 toy_init)))) = Inl TypeError
   \<and> niter (snd (mcmc toy_env 3 None None
          (add_component (1, 1) (1 / 10, 1000) 1
             (add_component (1, 1) (1 / 10, 1000) 1 toy_init)))) = Inr 3
   \<and> map_option shape (case_sum (\<lambda>e. None) id (mixing_weights (snd (mcmc toy_env 3 None None
          (add_component (1, 1) (1 / 10, 1000) 1
             (add_component (1, 1) (1 / 10, 1000) 1 toy_init)))))) = Some (3, 2)"
  by code_simp

text \<open>
  Claim C4: on an object on which \<open>mcmc\<close> has never been called, \<open>niter\<close> is \<open>0\<close> and the
  derived draw matrices are empty containers.
  On a freshly constructed object the attribute \<open>_mixing_weights\<close> does not exist yet,
  so \<open>niter\<close> and every property that reads it raise AttributeError.
\<close>

theorem fresh_object_properties_raise:
  "niter (init g) = Inl AttributeError
   \<and> mixing_weights (init g) = Inl AttributeError
   \<and> prop_a env (init g) = Inl AttributeError
   \<and> prop_b env (init g) = Inl AttributeError
   \<and> means env (init g) = Inl AttributeError
   \<and> sample_sizes env (init g) = Inl AttributeError"
  by (simp add: niter_def mixing_weights_def prop_a_def prop_b_def means_def sample_sizes_def
      draws_matrix_def init_def)

text \<open>
  Claim C5: after \<open>k\<close> calls of \<open>add_component\<close> on a fresh object, with any arguments,
  \<open>number_of_mixture_components\<close> is \<open>k\<close>. This holds for every sequence of calls on a
  fresh object, whatever other calls lie between the \<open>add_component\<close> calls and whether
  they return or raise: the property counts the \<open>add_component\<close> calls.
\<close>

theorem number_of_mixture_components_counts_calls:
  "number_of_mixture_components (run env cs (init g)) = length (filter is_add_component cs)"
  using run_count [of env cs "init g"]
  by (simp add: number_of_mixture_components_def init_def)

text \<open>
  Claim C6: after \<open>mcmc(niter=N1)\<close> and then \<open>mcmc(niter=N2)\<close> on one object the draw
  storage has exactly \<open>N2\<close> rows; the second call overwrites the tables and does not
  append to them. When the second call returns normally, \<open>N2\<close> is not negative, the
  mixing-weight table and the draws table of every component are allocated with \<open>N2\<close>
  rows, and the call ends in the same state as it would on the object with its draw
  storage discarded beforehand, so nothing of the earlier tables is left.
\<close>

theorem mcmc_twice_overwrites_storage:
  assumes "mcmc env n1 ping1 seed1 s = (r1, s1)"
    and "mcmc env n2 ping2 seed2 s1 = (None, s2)"
  shows "0 \<le> n2 \<and> storage_rows (nat n2) s2
       \<and> mcmc env n2 ping2 seed2 (clear_storage s1) = (None, s2)"
  using mcmc_rows [OF assms(2)] mcmc_clear [OF assms(2)] by simp

theorem mcmc_twice_overwrites_storage_witness:
  "storage_rows 2
     (snd (mcmc toy_env 2 None None
        (snd (mcmc toy_env 3 None (Some 7)
           (add_component (1, 1) (1 / 10, 1000) 1 toy_init)))))"
proof -
  let ?s = "add_component (1, 1) (1 / 10, 1000) 1 toy_init"
  let ?s1 = "snd (mcmc toy_env 3 None (Some 7) ?s)"
  let ?s2 = "snd (mcmc toy_env 2 None None ?s1)"
  have h1: "mcmc toy_env 3 None (Some 7) ?s = (fst (mcmc toy_env 3 None (Some 7) ?s), ?s1)"
    by simp
  have "fst (mcmc toy_env 2 None None ?s1) = None"
    by code_simp
  then have h2: "mcmc toy_env 2 None None ?s1 = (None, ?s2)"
    by (metis prod.collapse)
  show ?thesis
    using mcmc_twice_overwrites_storage [OF h1 h2] by simp
qed



text \<open>
  Claim C8: \<open>add_data\<close> rejects a table with a wrong column count or with negative
  counts before anything is forwarded to the engine.
  The code checks nothing itself. For the row \<open>(10, 4, -28)\<close> the boundary code raises
  nothing and hands the three columns, the negative count included, to the engine; of
  a table with four columns it hands over the first three.
\<close>

theorem add_data_forwards_unchecked_counterexample:
  "add_data_columns toy_env (NdArray \<lparr>ncols = 3, cells = [[10, 4, - 28]]\<rparr>)
     = Inr ([10], [4], [- 28])
   \<and> map_option received (priv_boom_model
        (snd (add_data toy_env (NdArray \<lparr>ncols = 3, cells = [[10, 4, - 28]]\<rparr>)
                (add_component (1, 1) (1 / 10, 1000) 1 toy_init))))
       = Some [([10], [4], [- 28])]
   \<and> add_data_columns toy_env (NdArray \<lparr>ncols = 4, cells = [[10, 4, 28, 7]]\<rparr>)
     = Inr ([10], [4], [28])
   \<and> map_option received (priv_boom_model
        (snd (add_data toy_env (NdArray \<lparr>ncols = 4, cells = [[10, 4, 28, 7]]\<rparr>)
                (add_component (1, 1) (1 / 10, 1000) 1 toy_init))))
       = Some [([10], [4], [28])]"
  by code_simp

text \<open>
  Claim C8 as amended: \<open>add_data\<close> raises at its boundary, before any data reaches the
  engine, only for a table with fewer than three columns or with a cell that does not
  cast to \<open>int\<close>; the object is then as the guarded build of the model left it. It
  validates nothing else. The theorem gives the outcome of every call:
  \<^item> a failed build of the model is raised and the object is unchanged;
  \<^item> with a model, built by this call or there before, a failed cast is raised as it
    is, and a missing column is IndexError;
  \<^item> with a model, a table of three or more columns whose cells cast is never
    rejected, whatever the values and however many columns: columns 0, 1 and 2 are
    passed to the engine, and the outcome of the call is the engine's.
\<close>

theorem add_data_checks_only_for_three_columns:
  "(ncols (values_of data) < 3 \<longrightarrow>
      fst (add_data env data s) \<noteq> None \<and> snd (add_data env data s) = after_build env s)
   \<and> (astype (cast_int env) (values_of data) = Inl e \<longrightarrow>
      fst (add_data env data s) \<noteq> None \<and> snd (add_data env data s) = after_build env s)
   \<and> (priv_boom_model s = None \<and> build_boom_model env s = Inl e \<longrightarrow>
      add_data env data s = (Some e, s))
   \<and> (priv_boom_model (after_build env s) = Some m
        \<and> astype (cast_int env) (values_of data) = Inl e \<longrightarrow>
      add_data env data s = (Some e, after_build env s))
   \<and> (priv_boom_model (after_build env s) = Some m
        \<and> astype (cast_int env) (values_of data) = Inr t \<and> ncols (values_of data) < 3 \<longrightarrow>
      add_data env data s = (Some IndexError, after_build env s))
   \<and> (priv_boom_model (after_build env s) = Some m
        \<and> astype (cast_int env) (values_of data) = Inr t \<and> 3 \<le> ncols (values_of data) \<longrightarrow>
      add_data env data s =
        (case boom_add_data env m (map (\<lambda>r. r ! 0) (cells t)) (map (\<lambda>r. r ! 1) (cells t))
                (map (\<lambda>r. r ! 2) (cells t)) of
           (r, m') \<Rightarrow> (r, (after_build env s)\<lparr>priv_boom_model := Some m'\<rparr>)))"
proof -
  have raised: "fst (add_data env data s) \<noteq> None \<and> snd (add_data env data s) = after_build env s"
    if "add_data_columns env data = Inl x" for x
    using that by (simp add: add_data_def after_build_def split: option.splits sum.splits)
  have c1: "ncols (values_of data) < 3 \<longrightarrow>
      fst (add_data env data s) \<noteq> None \<and> snd (add_data env data s) = after_build env s"
    using add_data_columns_short raised by blast
  have c2: "astype (cast_int env) (values_of data) = Inl e \<longrightarrow>
      fst (add_data env data s) \<noteq> None \<and> snd (add_data env data s) = after_build env s"
    using add_data_columns_cases(1) raised by blast
  have c3: "priv_boom_model s = None \<and> build_boom_model env s = Inl e \<longrightarrow>
      add_data env data s = (Some e, s)"
    by (simp add: add_data_def)
  have c4: "priv_boom_model (after_build env s) = Some m
        \<and> astype (cast_int env) (values_of data) = Inl e \<longrightarrow>
      add_data env data s = (Some e, after_build env s)"
    by (simp add: add_data_with_model add_data_columns_cases(1))
  have c5: "priv_boom_model (after_build env s) = Some m
        \<and> astype (cast_int env) (values_of data) = Inr t \<and> ncols (values_of data) < 3 \<longrightarrow>
      add_data env data s = (Some IndexError, after_build env s)"
    by (simp add: add_data_with_model add_data_columns_cases(2))
  have c6: "priv_boom_model (after_build env s) = Some m
        \<and> astype (cast_int env) (values_of data) = Inr t \<and> 3 \<le> ncols (values_of data) \<longrightarrow>
      add_data env data s =
        (case boom_add_data env m (map (\<lambda>r. r ! 0) (cells t)) (map (\<lambda>r. r ! 1) (cells t))
                (map (\<lambda>r. r ! 2) (cells t)) of
           (r, m') \<Rightarrow> (r, (after_build env s)\<lparr>priv_boom_model := Some m'\<rparr>))"
    by (simp add: add_data_with_model add_data_columns_cases(3))
  from c1 c2 c3 c4 c5 c6 show ?thesis by (intro conjI)
qed

theorem add_data_checks_only_for_three_columns_witness:
  "add_data toy_env (NdArray \<lparr>ncols = 2, cells = [[10, 4]]\<rparr>)
       (add_component (1, 1) (1 / 10, 1000) 1 toy_init)
     = (Some IndexError, after_build toy_env (add_component (1, 1) (1 / 10, 1000) 1 toy_init))
   \<and> add_data toy_env (DataFrame \<lparr>ncols = 4, cells = [[10, 4, - 28, 7]]\<rparr>)
       (add_component (1, 1) (1 / 10, 1000) 1 toy_init)
     = (None, (add_component (1, 1) (1 / 10, 1000) 1 toy_init)
          \<lparr>priv_boom_model :=
             Some \<lparr>mix_dim = 1, n_component_models = 1, received = [([10], [4], [- 28])]\<rparr>\<rparr>)
   \<and> add_data (toy_env\<lparr>cast_int := \<lambda>c. Inl ValueError\<rparr>)
       (NdArray \<lparr>ncols = 3, cells = [[10, 4, 28]]\<rparr>)
       (add_component (1, 1) (1 / 10, 1000) 1 toy_init)
     = (Some ValueError, after_build toy_env (add_component (1, 1) (1 / 10, 1000) 1 toy_init))
   \<and> add_data (toy_env\<lparr>boom_build := \<lambda>pcs specs. Inl EngineError\<rparr>)
       (NdArray \<lparr>ncols = 3, cells = [[10, 4, 28]]\<rparr>)
       (add_component (1, 1) (1 / 10, 1000) 1 toy_init)
     = (Some EngineError, add_component (1, 1) (1 / 10, 1000) 1 toy_init)"
proof -
  let ?short = "NdArray \<lparr>ncols = 2, cells = [[10, 4::int]]\<rparr>"
  let ?wide = "DataFrame \<lparr>ncols = 4, cells = [[10, 4, - 28, 7::int]]\<rparr>"
  let ?three = "NdArray \<lparr>ncols = 3, cells = [[10, 4, 28::int]]\<rparr>"
  let ?m = "\<lparr>mix_dim = 1, n_component_models = 1, received = []\<rparr>"
  let ?s = "add_component (1, 1) (1 / 10, 1000) 1 toy_init"
  let ?nocast = "toy_env\<lparr>cast_int := \<lambda>c. Inl ValueError\<rparr>"
  let ?nobuild = "toy_env\<lparr>boom_build := \<lambda>pcs specs. Inl EngineError\<rparr>"
  have model: "priv_boom_model (after_build toy_env ?s) = Some ?m"
    by (simp add: toy_env_def after_build_def toy_init_def init_def build_boom_model_def
        add_component_def)
  have built: "after_build toy_env ?s = ?s\<lparr>priv_boom_model := Some ?m\<rparr>"
    by (simp add: toy_env_def after_build_def toy_init_def init_def build_boom_model_def
        add_component_def)
  have short: "astype (cast_int toy_env) (values_of ?short) = Inr \<lparr>ncols = 2, cells = [[10, 4]]\<rparr>
       \<and> ncols (values_of ?short) < 3"
    by (simp add: astype_def toy_env_def)
  have wide: "astype (cast_int toy_env) (values_of ?wide)
         = Inr \<lparr>ncols = 4, cells = [[10, 4, - 28, 7]]\<rparr>
       \<and> 3 \<le> ncols (values_of ?wide)"
    by (simp add: astype_def toy_env_def)
  from add_data_checks_only_for_three_columns
         [where data = ?short and env = toy_env and s = ?s and m = ?m
            and t = "\<lparr>ncols = 2, cells = [[10, 4]]\<rparr>"] model short
  have 1: "add_data toy_env ?short ?s = (Some IndexError, after_build toy_env ?s)"
    by blast
  from add_data_checks_only_for_three_columns
         [where data = ?wide and env = toy_env and s = ?s and m = ?m
            and t = "\<lparr>ncols = 4, cells = [[10, 4, - 28, 7]]\<rparr>"] model wide
  have "add_data toy_env ?wide ?s =
        (case boom_add_data toy_env ?m
                (map (\<lambda>r. r ! 0) (cells \<lparr>ncols = 4, cells = [[10, 4, - 28, 7::int]]\<rparr>))
                (map (\<lambda>r. r ! 1) (cells \<lparr>ncols = 4, cells = [[10, 4, - 28, 7::int]]\<rparr>))
                (map (\<lambda>r. r ! 2) (cells \<lparr>ncols = 4, cells = [[10, 4, - 28, 7::int]]\<rparr>)) of
           (r, m') \<Rightarrow> (r, (after_build toy_env ?s)\<lparr>priv_boom_model := Some m'\<rparr>))"
    by blast
  then have 2: "add_data toy_env ?wide ?s
       = (None, ?s\<lparr>priv_boom_model :=
            Some \<lparr>mix_dim = 1, n_component_models = 1, received = [([10], [4], [- 28])]\<rparr>\<rparr>)"
    unfolding built by (simp add: toy_env_def)
  have "build_boom_model ?nocast ?s = build_boom_model toy_env ?s"
    by (simp add: build_boom_model_def)
  then have nocast_build: "after_build ?nocast ?s = after_build toy_env ?s"
    by (simp only: after_build_def)
  have nocast: "priv_boom_model (after_build ?nocast ?s) = Some ?m
       \<and> astype (cast_int ?nocast) (values_of ?three) = Inl ValueError"
    unfolding nocast_build using model by (simp add: astype_def)
  from add_data_checks_only_for_three_columns
         [where data = ?three and env = ?nocast and s = ?s and m = ?m and e = ValueError] nocast
  have 3: "add_data ?nocast ?three ?s = (Some ValueError, after_build toy_env ?s)"
    unfolding nocast_build by blast
  have nobuild: "priv_boom_model ?s = None \<and> build_boom_model ?nobuild ?s = Inl EngineError"
    by (simp add: build_boom_model_def add_component_def toy_init_def init_def)
  from add_data_checks_only_for_three_columns
         [where data = ?three and env = ?nobuild and s = ?s and e = EngineError] nobuild
  have 4: "add_data ?nobuild ?three ?s = (Some EngineError, ?s)"
    by blast
  from 1 2 3 4 show ?thesis by (intro conjI)
qed

text \<open>
  Claim C9: every sequence of calls keeps the number of prior counts equal to the number
  of components, and equal to the number of columns of every allocated draw table.
  The per-component draws tables have two columns (\<open>a\<close> and \<open>b\<close>) however many components
  there are: with one component, after \<open>mcmc(niter=1)\<close>, the draws table of the component
  has a column count different from the number of components.
\<close>

theorem draws_table_columns_counterexample:
  "map_option ncols (draws (hd (priv_components
      (run toy_env [AddComponent (1, 1) (1 / 10, 1000) 1, Mcmc 1 None None] toy_init))))
   \<noteq> Some (number_of_mixture_components
      (run toy_env [AddComponent (1, 1) (1 / 10, 1000) 1, Mcmc 1 None None] toy_init))"
  by code_simp

text \<open>
  Claim C9 as amended: after every sequence of calls on a fresh object, whether the
  calls return or raise, the two lists have the same length, the mixing-weight table,
  when allocated, has that many columns, and every allocated per-component draws table
  has two columns.
\<close>

theorem storage_invariant_holds:
  "storage_invariant (run env cs (init g))"
  by (rule run_invariant [OF init_invariant])

theorem storage_invariant_holds_witness:
  "storage_invariant
     (run toy_env
        [AddComponent (1, 1) (1 / 10, 1000) 1, Mcmc 1 None None,
         AddComponent (1, 1) (1 / 10, 1000) 1, Mcmc (- 1) None None, Mcmc 2 None None] toy_init)
   \<and> map (\<lambda>c. map_option shape (draws c)) (priv_components
     (run toy_env
        [AddComponent (1, 1) (1 / 10, 1000) 1, Mcmc 1 None None,
         AddComponent (1, 1) (1 / 10, 1000) 1, Mcmc (- 1) None None, Mcmc 2 None None] toy_init))
     = [Some (2, 2), Some (2, 2)]
   \<and> map_option shape (case_sum (\<lambda>e. None) id (mixing_weights
     (run toy_env
        [AddComponent (1, 1) (1 / 10, 1000) 1, Mcmc 1 None None,
         AddComponent (1, 1) (1 / 10, 1000) 1, Mcmc (- 1) None None, Mcmc 2 None None] toy_init)))
     = Some (2, 2)"
proof -
  let ?s = "run toy_env
        [AddComponent (1, 1) (1 / 10, 1000) 1, Mcmc 1 None None,
         AddComponent (1, 1) (1 / 10, 1000) 1, Mcmc (- 1) None None, Mcmc 2 None None] toy_init"
  have a: "storage_invariant ?s"
    unfolding toy_init_def by (rule storage_invariant_holds)
  have b: "map (\<lambda>c. map_option shape (draws c)) (priv_components ?s) = [Some (2, 2), Some (2, 2)]"
    by code_simp
  have c: "map_option shape (case_sum (\<lambda>e. None) id (mixing_weights ?s)) = Some (2, 2)"
    by code_simp
  from a b c show ?thesis by (intro conjI)
qed




end
